theory Spec2Isabelle
  imports Main "HOL-Library.Word"
begin

section \<open>The sedcli library front end (\<^verbatim>\<open>src/lib/sed.c\<close>)\<close>

text \<open>
  A shallow embedding of \<^verbatim>\<open>sed.c\<close>: the status translator \<^verbatim>\<open>sed_error_text\<close>, the key
  container constructor \<^verbatim>\<open>sed_key_init\<close>, the device handle life cycle
  (\<^verbatim>\<open>sed_init\<close>, \<^verbatim>\<open>sed_deinit\<close>) and the seventeen operations that forward to the
  table of backend entry points \<^verbatim>\<open>struct opal_interface\<close>.
\<close>

subsection \<open>Machine types\<close>

text \<open>
  \<^verbatim>\<open>int\<close> is a 32-bit two's complement word (read with \<open>sint\<close>), \<^verbatim>\<open>size_t\<close> a 64-bit
  unsigned word. A pointer is an address; the null pointer is address 0.
\<close>

type_synonym u8 = "8 word"
type_synonym u32 = "32 word"
type_synonym c_int = "32 word"
type_synonym size_t = "64 word"
type_synonym addr = nat

abbreviation NULL :: addr where
  "NULL \<equiv> 0"

text \<open>The error numbers of \<^verbatim>\<open><errno.h>\<close> on Linux.\<close>

definition ENOMEM :: c_int where
  "ENOMEM = 12"

definition EINVAL :: c_int where
  "EINVAL = 22"

definition ERANGE :: c_int where
  "ERANGE = 34"

definition EOPNOTSUPP :: c_int where
  "EOPNOTSUPP = 95"

subsection \<open>Status translator\<close>

text \<open>The table \<^verbatim>\<open>sed_errors[]\<close>, in the order of the source.\<close>

definition sed_errors :: "string list" where
  "sed_errors =
     [''Success'',
      ''Not Authorized'',
      ''Unknown Error'',
      ''SP Busy'',
      ''SP Failed'',
      ''SP Disabled'',
      ''SP Frozen'',
      ''No Sessions Available'',
      ''Uniqueness Conflict'',
      ''Insufficient Space'',
      ''Insufficient Rows'',
      ''Invalid Function'',
      ''Invalid Parameter'',
      ''Invalid Reference'',
      ''Unknown Error'',
      ''TPER Malfunction'',
      ''Transaction Failure'',
      ''Response Overflow'',
      ''Authority Locked Out'']"

text \<open>\<^verbatim>\<open>#define ARRAY_SIZE(x) ((size_t)(sizeof(x) / sizeof(x[0])))\<close>\<close>

definition ARRAY_SIZE :: "'a list \<Rightarrow> size_t" where
  "ARRAY_SIZE x = of_nat (length x)"

text \<open>
  \<^verbatim>\<open>sed_error_text\<close> returns a pointer to a string constant, or the null pointer
  (\<open>None\<close>). The literal for 0x3F is \<^verbatim>\<open>"Failed\n"\<close>: the word followed by a line feed.
  In \<^verbatim>\<open>sed_status >= ARRAY_SIZE(sed_errors)\<close> the \<^verbatim>\<open>int\<close> is converted to \<^verbatim>\<open>size_t\<close>
  (sign extension, \<open>scast\<close>) and the comparison is unsigned.
\<close>

definition sed_error_text :: "c_int \<Rightarrow> string option" where
  "sed_error_text sed_status =
     (if sed_status = 0x3F then Some ''Failed\<newline>''
      else if (scast sed_status :: size_t) \<ge> ARRAY_SIZE sed_errors \<or> sint sed_status < 0
        then None
      else Some (sed_errors ! unat sed_status))"

subsection \<open>The world the library runs in\<close>

text \<open>
  The entries of \<^verbatim>\<open>struct opal_interface\<close>, by the names of its fields.
\<close>

datatype entry =
    INIT_FN | OWNERSHIP_FN | REVERT_FN | ACTIVATELSP_FN | SETUP_GLOBAL_RANGE_FN
  | ADDUSR_TO_LR_FN | ACTIVATE_USR_FN | SETUPLR_FN | LOCK_UNLOCK_FN | SET_PWD_FN
  | SHADOW_MBR_FN | ERASELR_FN | DS_ADD_ANYBODY_GET_FN | DS_ADMIN_WRITE_FN
  | DS_ADMIN_READ_FN | DS_ANYBODY_READ_FN | DS_ANYBODY_WRITE_FN | LIST_LR_FN | DEINIT_FN

text \<open>
  What the library does to its environment, in the order it does it: a call of a backend
  entry, a successful \<^verbatim>\<open>malloc\<close> of \<open>n\<close> bytes at an address, a \<^verbatim>\<open>memset\<close>, a
  \<^verbatim>\<open>free\<close>.
\<close>

datatype event =
    EvCall entry
  | EvMalloc nat addr
  | EvMemset addr u8 nat
  | EvFree addr

text \<open>
  Undefined behaviour of the C program is a value: a call through a null function
  pointer, a \<^verbatim>\<open>memset\<close> or \<^verbatim>\<open>free\<close> of memory that is not a live block, a \<^verbatim>\<open>memcpy\<close> that
  reads or writes past the end of an object.
\<close>

datatype fault =
    NullCall entry
  | InvalidWrite addr
  | InvalidFree addr
  | OutOfBounds

text \<open>
  The world: byte-addressed memory, the live heap blocks (base address to size), the
  answers the allocator will give to the coming \<^verbatim>\<open>malloc\<close> calls (the null pointer, or
  no answer left, is an allocation failure), the state private to the backend, and the
  trace of events so far. Memory keeps its contents when a block is freed.
\<close>

record 'b world =
  mem :: "addr \<Rightarrow> u8"
  live :: "addr \<rightharpoonup> nat"
  heap_next :: "addr list"
  backend :: 'b
  trace :: "event list"

text \<open>
  A backend entry point reads and writes memory and the backend's private state, and
  returns an \<^verbatim>\<open>int\<close> (\<^verbatim>\<open>deinit\<close> returns nothing). It cannot allocate or free the
  library's blocks and does not see the trace.
\<close>

type_synonym 'b bstate = "(addr \<Rightarrow> u8) \<times> 'b"
type_synonym 'b bcall = "'b bstate \<Rightarrow> c_int \<times> 'b bstate"
type_synonym 'b bproc = "'b bstate \<Rightarrow> 'b bstate"

text \<open>\<^verbatim>\<open>enum SED_LOCK_TYPE\<close> is passed through as the \<^verbatim>\<open>int\<close> it is.\<close>

type_synonym SED_LOCK_TYPE = c_int

text \<open>
  \<^verbatim>\<open>struct opal_interface\<close>: one function pointer per entry, \<open>None\<close> for the null
  pointer. The argument types follow the typedefs of the source; every pointer argument
  is an address, which the library forwards and never dereferences.
\<close>

record 'b opal_interface =
  init_fn :: "(addr \<Rightarrow> addr \<Rightarrow> 'b bcall) option"
  ownership_fn :: "(addr \<Rightarrow> addr \<Rightarrow> 'b bcall) option"
  revert_fn :: "(addr \<Rightarrow> addr \<Rightarrow> bool \<Rightarrow> 'b bcall) option"
  activatelsp_fn :: "(addr \<Rightarrow> addr \<Rightarrow> addr \<Rightarrow> bool \<Rightarrow> 'b bcall) option"
  setup_global_range_fn :: "(addr \<Rightarrow> addr \<Rightarrow> 'b bcall) option"
  addusr_to_lr_fn ::
    "(addr \<Rightarrow> addr \<Rightarrow> u8 \<Rightarrow> addr \<Rightarrow> SED_LOCK_TYPE \<Rightarrow> u8 \<Rightarrow> 'b bcall) option"
  activate_usr_fn :: "(addr \<Rightarrow> addr \<Rightarrow> u8 \<Rightarrow> addr \<Rightarrow> 'b bcall) option"
  setuplr_fn ::
    "(addr \<Rightarrow> addr \<Rightarrow> u8 \<Rightarrow> addr \<Rightarrow> u8 \<Rightarrow> size_t \<Rightarrow> size_t \<Rightarrow> bool \<Rightarrow> bool \<Rightarrow> bool
       \<Rightarrow> 'b bcall) option"
  lock_unlock_fn :: "(addr \<Rightarrow> addr \<Rightarrow> SED_LOCK_TYPE \<Rightarrow> 'b bcall) option"
  set_pwd_fn :: "(addr \<Rightarrow> addr \<Rightarrow> addr \<Rightarrow> 'b bcall) option"
  shadow_mbr_fn :: "(addr \<Rightarrow> addr \<Rightarrow> u8 \<Rightarrow> bool \<Rightarrow> 'b bcall) option"
  eraselr_fn :: "(addr \<Rightarrow> addr \<Rightarrow> u8 \<Rightarrow> addr \<Rightarrow> u8 \<Rightarrow> bool \<Rightarrow> 'b bcall) option"
  ds_add_anybody_get_fn :: "(addr \<Rightarrow> addr \<Rightarrow> u8 \<Rightarrow> 'b bcall) option"
  ds_admin_write_fn :: "(addr \<Rightarrow> addr \<Rightarrow> u8 \<Rightarrow> addr \<Rightarrow> u32 \<Rightarrow> u32 \<Rightarrow> 'b bcall) option"
  ds_admin_read_fn :: "(addr \<Rightarrow> addr \<Rightarrow> u8 \<Rightarrow> addr \<Rightarrow> u32 \<Rightarrow> u32 \<Rightarrow> 'b bcall) option"
  ds_anybody_read_fn :: "(addr \<Rightarrow> addr \<Rightarrow> u32 \<Rightarrow> u32 \<Rightarrow> 'b bcall) option"
  ds_anybody_write_fn :: "(addr \<Rightarrow> addr \<Rightarrow> u32 \<Rightarrow> u32 \<Rightarrow> 'b bcall) option"
  list_lr_fn :: "(addr \<Rightarrow> addr \<Rightarrow> u8 \<Rightarrow> 'b bcall) option"
  deinit_fn :: "(addr \<Rightarrow> 'b bproc) option"

text \<open>
  Running a backend entry \<open>f\<close> (already applied to its arguments) in the world: its
  result is returned as it is, memory and backend state are what it leaves, and the call
  is appended to the trace.
\<close>

definition run_backend :: "entry \<Rightarrow> 'b bcall \<Rightarrow> 'b world \<Rightarrow> c_int \<times> 'b world" where
  "run_backend e f w =
     (case f (mem w, backend w) of
        (r, m', b') \<Rightarrow> (r, w\<lparr>mem := m', backend := b', trace := trace w @ [EvCall e]\<rparr>))"

definition run_backend_void :: "entry \<Rightarrow> 'b bproc \<Rightarrow> 'b world \<Rightarrow> 'b world" where
  "run_backend_void e f w =
     (case f (mem w, backend w) of
        (m', b') \<Rightarrow> w\<lparr>mem := m', backend := b', trace := trace w @ [EvCall e]\<rparr>)"

text \<open>
  \<^verbatim>\<open>curr_if->entry_fn(args)\<close>: a call through the function pointer \<open>fp\<close>; \<open>args\<close> applies
  the pointed-to function to the arguments of the call. A null pointer cannot be called.
\<close>

definition call ::
  "entry \<Rightarrow> 'f option \<Rightarrow> ('f \<Rightarrow> 'b bcall) \<Rightarrow> 'b world \<Rightarrow> fault + (c_int \<times> 'b world)" where
  "call e fp args w =
     (case fp of
        None \<Rightarrow> Inl (NullCall e)
      | Some f \<Rightarrow> Inr (run_backend e (args f) w))"

definition call_void ::
  "entry \<Rightarrow> 'f option \<Rightarrow> ('f \<Rightarrow> 'b bproc) \<Rightarrow> 'b world \<Rightarrow> fault + 'b world" where
  "call_void e fp args w =
     (case fp of
        None \<Rightarrow> Inl (NullCall e)
      | Some f \<Rightarrow> Inr (run_backend_void e (args f) w))"

text \<open>The C library: \<^verbatim>\<open>malloc\<close>, \<^verbatim>\<open>memset\<close>, \<^verbatim>\<open>free\<close>, \<^verbatim>\<open>memcpy\<close>.\<close>

definition c_malloc :: "nat \<Rightarrow> 'b world \<Rightarrow> addr \<times> 'b world" where
  "c_malloc n w =
     (case heap_next w of
        [] \<Rightarrow> (NULL, w)
      | a # rest \<Rightarrow>
          if a = NULL then (NULL, w\<lparr>heap_next := rest\<rparr>)
          else (a, w\<lparr>live := (live w)(a \<mapsto> n), heap_next := rest,
                      trace := trace w @ [EvMalloc n a]\<rparr>))"

definition c_memset :: "addr \<Rightarrow> u8 \<Rightarrow> nat \<Rightarrow> 'b world \<Rightarrow> fault + 'b world" where
  "c_memset p c n w =
     (case live w p of
        None \<Rightarrow> Inl (InvalidWrite p)
      | Some m \<Rightarrow>
          if n \<le> m
          then Inr (w\<lparr>mem := (\<lambda>x. if p \<le> x \<and> x < p + n then c else mem w x),
                      trace := trace w @ [EvMemset p c n]\<rparr>)
          else Inl (InvalidWrite p))"

definition c_free :: "addr \<Rightarrow> 'b world \<Rightarrow> fault + 'b world" where
  "c_free p w =
     (if p = NULL then Inr w
      else case live w p of
        None \<Rightarrow> Inl (InvalidFree p)
      | Some m \<Rightarrow> Inr (w\<lparr>live := (live w)(p := None), trace := trace w @ [EvFree p]\<rparr>))"

text \<open>
  \<^verbatim>\<open>memcpy(dst, src, n)\<close> on two arrays: the first \<open>n\<close> bytes of \<open>dst\<close> are replaced by the
  first \<open>n\<close> bytes of \<open>src\<close>, the rest of \<open>dst\<close> stays.
\<close>

definition c_memcpy :: "u8 list \<Rightarrow> u8 list \<Rightarrow> nat \<Rightarrow> fault + u8 list" where
  "c_memcpy dst src n =
     (if n \<le> length src \<and> n \<le> length dst then Inr (take n src @ drop n dst)
      else Inl OutOfBounds)"

subsection \<open>Device handle life cycle\<close>

text \<open>
  \<^verbatim>\<open>curr_if\<close>, the table selected when the library is built, is a parameter, and so is
  \<open>sizeof_dev\<close>, the value of \<^verbatim>\<open>sizeof(struct sed_device)\<close> (the structure is declared
  outside \<^verbatim>\<open>sed.c\<close>).
\<close>

definition sed_deinit :: "'b opal_interface \<Rightarrow> nat \<Rightarrow> addr \<Rightarrow> 'b world \<Rightarrow> fault + 'b world" where
  "sed_deinit curr_if sizeof_dev dev w =
     (if dev \<noteq> NULL then
        (case call_void DEINIT_FN (deinit_fn curr_if) (\<lambda>f. f dev) w of
           Inl e \<Rightarrow> Inl e
         | Inr w1 \<Rightarrow>
             (case c_memset dev 0 sizeof_dev w1 of
                Inl e \<Rightarrow> Inl e
              | Inr w2 \<Rightarrow> c_free dev w2))
      else Inr w)"

text \<open>
  \<^verbatim>\<open>sed_init(struct sed_device **dev, const char *dev_path)\<close>. The argument \<open>dev\<close> is the
  value the caller's variable \<^verbatim>\<open>*dev\<close> holds before the call; the second component of the
  result is the value it holds after the call. \<^verbatim>\<open>malloc\<close> does not initialise the block:
  its bytes are whatever memory held there.
\<close>

definition sed_init ::
  "'b opal_interface \<Rightarrow> nat \<Rightarrow> addr \<Rightarrow> addr \<Rightarrow> 'b world \<Rightarrow> fault + (c_int \<times> addr \<times> 'b world)" where
  "sed_init curr_if sizeof_dev dev dev_path w =
     (case c_malloc sizeof_dev w of
        (ret, w1) \<Rightarrow>
          if ret = NULL then Inr (- ENOMEM, dev, w1)
          else
            (case call INIT_FN (init_fn curr_if) (\<lambda>f. f ret dev_path) w1 of
               Inl e \<Rightarrow> Inl e
             | Inr (status, w2) \<Rightarrow>
                 if status \<noteq> 0 then
                   (case sed_deinit curr_if sizeof_dev ret w2 of
                      Inl e \<Rightarrow> Inl e
                    | Inr w3 \<Rightarrow> Inr (status, dev, w3))
                 else Inr (status, ret, w2)))"

subsection \<open>Key container\<close>

text \<open>
  \<^verbatim>\<open>struct sed_key\<close> has the byte array \<^verbatim>\<open>key[SED_MAX_KEY_LEN]\<close> and the \<^verbatim>\<open>uint8_t len\<close>.
\<close>

record sed_key =
  key_C :: "u8 list"
  len_C :: u8

text \<open>
  \<^verbatim>\<open>sed_key_init\<close>. The constant \<^verbatim>\<open>SED_MAX_KEY_LEN\<close> is defined outside \<^verbatim>\<open>sed.c\<close> and is
  a parameter. \<^verbatim>\<open>uint8_t dest_len = SED_MAX_KEY_LEN - 1\<close> converts an \<^verbatim>\<open>int\<close> to
  \<^verbatim>\<open>uint8_t\<close>. The key container is passed in and returned; the source \<open>key\<close> is the array
  the pointer \<^verbatim>\<open>const char *key\<close> points to. Both pointers are taken to be valid.
  The world is passed through: the function touches nothing but the container.
\<close>

definition sed_key_init ::
  "int \<Rightarrow> sed_key \<Rightarrow> u8 list \<Rightarrow> u8 \<Rightarrow> 'b world \<Rightarrow> fault + (c_int \<times> sed_key \<times> 'b world)" where
  "sed_key_init SED_MAX_KEY_LEN auth_key key key_len w =
     (let src_len = key_len;
          dest_len = (word_of_int (SED_MAX_KEY_LEN - 1) :: u8)
      in
        if src_len = 0 then Inr (- EINVAL, auth_key, w)
        else if src_len > dest_len then Inr (- ERANGE, auth_key, w)
        else
          (case c_memcpy (key_C auth_key) key (unat src_len) of
             Inl e \<Rightarrow> Inl e
           | Inr bytes \<Rightarrow> Inr (0, auth_key\<lparr>key_C := bytes, len_C := key_len\<rparr>, w)))"

subsection \<open>Command operations\<close>

text \<open>
  Each operation takes the table \<open>curr_if\<close>, its C arguments in the order of the source,
  and the world; it returns the \<^verbatim>\<open>int\<close> result with the world after the call. The
  parameters \<^verbatim>\<open>from\<close>, \<^verbatim>\<open>to\<close>, \<^verbatim>\<open>size\<close> and \<^verbatim>\<open>sum\<close> of the source are written \<open>from_p\<close>,
  \<open>to_p\<close>, \<open>size_n\<close> and \<open>sum_f\<close>. The first eleven operations call their entry without
  looking at it; the last six return \<^verbatim>\<open>-EOPNOTSUPP\<close> when the entry is the null pointer.
\<close>

definition sed_takeownership ::
  "'b opal_interface \<Rightarrow> addr \<Rightarrow> addr \<Rightarrow> 'b world
     \<Rightarrow> fault + (c_int \<times> 'b world)" where
  "sed_takeownership curr_if dev key w =
     call OWNERSHIP_FN (ownership_fn curr_if) (\<lambda>f. f dev key) w"

definition sed_setup_global_range ::
  "'b opal_interface \<Rightarrow> addr \<Rightarrow> addr \<Rightarrow> 'b world
     \<Rightarrow> fault + (c_int \<times> 'b world)" where
  "sed_setup_global_range curr_if dev key w =
     call SETUP_GLOBAL_RANGE_FN (setup_global_range_fn curr_if) (\<lambda>f. f dev key) w"

definition sed_reverttper ::
  "'b opal_interface \<Rightarrow> addr \<Rightarrow> addr \<Rightarrow> bool \<Rightarrow> 'b world
     \<Rightarrow> fault + (c_int \<times> 'b world)" where
  "sed_reverttper curr_if dev key psid w =
     call REVERT_FN (revert_fn curr_if) (\<lambda>f. f dev key psid) w"

definition sed_activatelsp ::
  "'b opal_interface \<Rightarrow> addr \<Rightarrow> addr \<Rightarrow> 'b world
     \<Rightarrow> fault + (c_int \<times> 'b world)" where
  "sed_activatelsp curr_if dev key w =
     call ACTIVATELSP_FN (activatelsp_fn curr_if) (\<lambda>f. f dev key NULL False) w"

definition sed_lock_unlock ::
  "'b opal_interface \<Rightarrow> addr \<Rightarrow> addr \<Rightarrow> SED_LOCK_TYPE \<Rightarrow> 'b world
     \<Rightarrow> fault + (c_int \<times> 'b world)" where
  "sed_lock_unlock curr_if dev key lock_type w =
     call LOCK_UNLOCK_FN (lock_unlock_fn curr_if) (\<lambda>f. f dev key lock_type) w"

definition sed_addusertolr ::
  "'b opal_interface \<Rightarrow> addr \<Rightarrow> addr \<Rightarrow> u8 \<Rightarrow> addr \<Rightarrow> SED_LOCK_TYPE \<Rightarrow> u8 \<Rightarrow> 'b world
     \<Rightarrow> fault + (c_int \<times> 'b world)" where
  "sed_addusertolr curr_if dev pass key_len user lock_type lr w =
     call ADDUSR_TO_LR_FN (addusr_to_lr_fn curr_if) (\<lambda>f. f dev pass key_len user lock_type lr) w"

definition sed_enableuser ::
  "'b opal_interface \<Rightarrow> addr \<Rightarrow> addr \<Rightarrow> u8 \<Rightarrow> addr \<Rightarrow> 'b world
     \<Rightarrow> fault + (c_int \<times> 'b world)" where
  "sed_enableuser curr_if dev pass key_len user w =
     call ACTIVATE_USR_FN (activate_usr_fn curr_if) (\<lambda>f. f dev pass key_len user) w"

definition sed_setuplr ::
  "'b opal_interface \<Rightarrow> addr \<Rightarrow> addr \<Rightarrow> u8 \<Rightarrow> addr \<Rightarrow> u8 \<Rightarrow> size_t \<Rightarrow> size_t
     \<Rightarrow> bool \<Rightarrow> bool \<Rightarrow> bool \<Rightarrow> 'b world
     \<Rightarrow> fault + (c_int \<times> 'b world)" where
  "sed_setuplr curr_if dev pass key_len user lr range_start range_length sum_f RLE WLE w =
     call SETUPLR_FN (setuplr_fn curr_if)
       (\<lambda>f. f dev pass key_len user lr range_start range_length sum_f RLE WLE) w"

definition sed_setpw ::
  "'b opal_interface \<Rightarrow> addr \<Rightarrow> addr \<Rightarrow> addr \<Rightarrow> 'b world
     \<Rightarrow> fault + (c_int \<times> 'b world)" where
  "sed_setpw curr_if dev old_key new_key w =
     call SET_PWD_FN (set_pwd_fn curr_if) (\<lambda>f. f dev old_key new_key) w"

definition sed_shadowmbr ::
  "'b opal_interface \<Rightarrow> addr \<Rightarrow> addr \<Rightarrow> u8 \<Rightarrow> bool \<Rightarrow> 'b world
     \<Rightarrow> fault + (c_int \<times> 'b world)" where
  "sed_shadowmbr curr_if dev pass key_len mbr w =
     call SHADOW_MBR_FN (shadow_mbr_fn curr_if) (\<lambda>f. f dev pass key_len mbr) w"

definition sed_eraselr ::
  "'b opal_interface \<Rightarrow> addr \<Rightarrow> addr \<Rightarrow> u8 \<Rightarrow> addr \<Rightarrow> u8 \<Rightarrow> bool \<Rightarrow> 'b world
     \<Rightarrow> fault + (c_int \<times> 'b world)" where
  "sed_eraselr curr_if dev password key_len user lr sum_f w =
     call ERASELR_FN (eraselr_fn curr_if) (\<lambda>f. f dev password key_len user lr sum_f) w"

definition sed_ds_admin_write ::
  "'b opal_interface \<Rightarrow> addr \<Rightarrow> addr \<Rightarrow> u8 \<Rightarrow> addr \<Rightarrow> u32 \<Rightarrow> u32 \<Rightarrow> 'b world
     \<Rightarrow> fault + (c_int \<times> 'b world)" where
  "sed_ds_admin_write curr_if dev key key_len from_p size_n offset w =
     (if ds_admin_write_fn curr_if = None then Inr (- EOPNOTSUPP, w)
      else call DS_ADMIN_WRITE_FN (ds_admin_write_fn curr_if)
             (\<lambda>f. f dev key key_len from_p size_n offset) w)"

definition sed_ds_admin_read ::
  "'b opal_interface \<Rightarrow> addr \<Rightarrow> addr \<Rightarrow> u8 \<Rightarrow> addr \<Rightarrow> u32 \<Rightarrow> u32 \<Rightarrow> 'b world
     \<Rightarrow> fault + (c_int \<times> 'b world)" where
  "sed_ds_admin_read curr_if dev key key_len to_p size_n offset w =
     (if ds_admin_read_fn curr_if = None then Inr (- EOPNOTSUPP, w)
      else call DS_ADMIN_READ_FN (ds_admin_read_fn curr_if)
             (\<lambda>f. f dev key key_len to_p size_n offset) w)"

definition sed_ds_anybody_read ::
  "'b opal_interface \<Rightarrow> addr \<Rightarrow> addr \<Rightarrow> u32 \<Rightarrow> u32 \<Rightarrow> 'b world
     \<Rightarrow> fault + (c_int \<times> 'b world)" where
  "sed_ds_anybody_read curr_if dev to_p size_n offset w =
     (if ds_anybody_read_fn curr_if = None then Inr (- EOPNOTSUPP, w)
      else call DS_ANYBODY_READ_FN (ds_anybody_read_fn curr_if)
             (\<lambda>f. f dev to_p size_n offset) w)"

definition sed_ds_anybody_write ::
  "'b opal_interface \<Rightarrow> addr \<Rightarrow> addr \<Rightarrow> u32 \<Rightarrow> u32 \<Rightarrow> 'b world
     \<Rightarrow> fault + (c_int \<times> 'b world)" where
  "sed_ds_anybody_write curr_if dev from_p size_n offset w =
     (if ds_anybody_write_fn curr_if = None then Inr (- EOPNOTSUPP, w)
      else call DS_ANYBODY_WRITE_FN (ds_anybody_write_fn curr_if)
             (\<lambda>f. f dev from_p size_n offset) w)"

definition sed_ds_add_anybody_get ::
  "'b opal_interface \<Rightarrow> addr \<Rightarrow> addr \<Rightarrow> u8 \<Rightarrow> 'b world
     \<Rightarrow> fault + (c_int \<times> 'b world)" where
  "sed_ds_add_anybody_get curr_if dev key key_len w =
     (if ds_add_anybody_get_fn curr_if = None then Inr (- EOPNOTSUPP, w)
      else call DS_ADD_ANYBODY_GET_FN (ds_add_anybody_get_fn curr_if)
             (\<lambda>f. f dev key key_len) w)"

definition sed_list_lr ::
  "'b opal_interface \<Rightarrow> addr \<Rightarrow> addr \<Rightarrow> u8 \<Rightarrow> 'b world
     \<Rightarrow> fault + (c_int \<times> 'b world)" where
  "sed_list_lr curr_if dev key key_len w =
     (if list_lr_fn curr_if = None then Inr (- EOPNOTSUPP, w)
      else call LIST_LR_FN (list_lr_fn curr_if)
             (\<lambda>f. f dev key key_len) w)"

subsection \<open>The two tables of the source\<close>



subsection \<open>Two tables with test doubles\<close>

text \<open>
  The backends are outside \<^verbatim>\<open>sed.c\<close>. The two tables below have the shape of the two
  initialisers of \<^verbatim>\<open>opal_if\<close> in the source, with a test double at every entry the
  source fills in: it counts the call in the backend state and returns the status \<open>r\<close>.
  The double of the init entry also writes the byte 0xFF at the start of the handle.
  \<open>passthrough_table\<close> fills all nineteen entries (the table used without
  \<^verbatim>\<open>CONFIG_OPAL_DRIVER\<close>); \<open>driver_table\<close> leaves the four data store entries, the
  grant entry and the list entry null (the table used with \<^verbatim>\<open>CONFIG_OPAL_DRIVER\<close>).
\<close>

definition stub :: "c_int \<Rightarrow> nat bcall" where
  "stub r s = (r, fst s, Suc (snd s))"

definition stub_init :: "c_int \<Rightarrow> addr \<Rightarrow> addr \<Rightarrow> nat bcall" where
  "stub_init r dev dev_path s = (r, (fst s)(dev := 0xFF), Suc (snd s))"

definition stub_deinit :: "addr \<Rightarrow> nat bproc" where
  "stub_deinit dev s = (fst s, Suc (snd s))"

definition passthrough_table :: "c_int \<Rightarrow> nat opal_interface" where
  "passthrough_table r =
     \<lparr>init_fn = Some (stub_init r),
      ownership_fn = Some (\<lambda>dev key. stub r),
      revert_fn = Some (\<lambda>dev key psid. stub r),
      activatelsp_fn = Some (\<lambda>dev key lr_str sum_f. stub r),
      setup_global_range_fn = Some (\<lambda>dev key. stub r),
      addusr_to_lr_fn = Some (\<lambda>dev pass key_len user lock_type lr. stub r),
      activate_usr_fn = Some (\<lambda>dev pass key_len user. stub r),
      setuplr_fn =
        Some (\<lambda>dev pass key_len user lr range_start range_length sum_f RLE WLE. stub r),
      lock_unlock_fn = Some (\<lambda>dev key lock_type. stub r),
      set_pwd_fn = Some (\<lambda>dev old_key new_key. stub r),
      shadow_mbr_fn = Some (\<lambda>dev pass key_len mbr. stub r),
      eraselr_fn = Some (\<lambda>dev password key_len user lr sum_f. stub r),
      ds_add_anybody_get_fn = Some (\<lambda>dev key key_len. stub r),
      ds_admin_write_fn = Some (\<lambda>dev key key_len from_p size_n offset. stub r),
      ds_admin_read_fn = Some (\<lambda>dev key key_len to_p size_n offset. stub r),
      ds_anybody_read_fn = Some (\<lambda>dev to_p size_n offset. stub r),
      ds_anybody_write_fn = Some (\<lambda>dev from_p size_n offset. stub r),
      list_lr_fn = Some (\<lambda>dev key key_len. stub r),
      deinit_fn = Some stub_deinit\<rparr>"


text \<open>
  A world to run them in: every byte of memory is 0xAA, no block is live, the allocator
  will hand out address 16 once, the backend has counted no call, nothing has happened.
\<close>

definition world0 :: "nat world" where
  "world0 = \<lparr>mem = (\<lambda>x. 0xAA), live = Map.empty, heap_next = [16], backend = 0, trace = []\<rparr>"

subsection \<open>Inputs for the examples\<close>

text \<open>
  The nine bytes of the ASCII string \<^verbatim>\<open>password1\<close>, a key container of capacity 32 that
  already holds a four byte key, and the world after a successful \<^verbatim>\<open>sed_init\<close> in
  \<open>world0\<close> with an eight byte handle.
\<close>

definition password1 :: "u8 list" where
  "password1 = [0x70, 0x61, 0x73, 0x73, 0x77, 0x6F, 0x72, 0x64, 0x31]"

definition key0 :: sed_key where
  "key0 = \<lparr>key_C = replicate 32 0x5A, len_C = 4\<rparr>"

definition world1 :: "nat world" where
  "world1 =
     \<lparr>mem = (\<lambda>x. 0xAA)(16 := 0xFF), live = [16 \<mapsto> 8], heap_next = [], backend = 1,
      trace = [EvMalloc 8 16, EvCall INIT_FN]\<rparr>"

section \<open>Properties\<close>

subsection \<open>Status translator\<close>

lemma size_t_of_int_ge:
  "((scast (c :: c_int) :: size_t) \<ge> 19) = (sint c < 0 \<or> 19 \<le> sint c)"
proof -
  have r: "- (2 ^ 31) \<le> sint c" "sint c < 2 ^ 31"
    using sint_ge [of c] sint_lt [of c] by simp_all
  have "uint (word_of_int (sint c) :: size_t) = sint c mod 2 ^ LENGTH(64)"
    by (rule uint_word_of_int)
  then have u: "uint (scast c :: size_t) = sint c mod 2 ^ 64"
    by (simp only: scast_eq) simp
  have n: "uint (19 :: size_t) = 19"
    by simp
  show ?thesis
  proof (cases "sint c < 0")
    case True
    have "(sint c + 2 ^ 64) mod 2 ^ 64 = sint c + 2 ^ 64"
      using r True by (intro mod_pos_pos_trivial) simp_all
    then have "sint c mod 2 ^ 64 = sint c + 2 ^ 64"
      by simp
    then show ?thesis
      using True r u by (simp only: word_le_def n) simp
  next
    case False
    then have "sint c mod 2 ^ 64 = sint c"
      using r by (intro mod_pos_pos_trivial) simp_all
    then show ?thesis
      using False u by (simp only: word_le_def n) simp
  qed
qed

lemma unat_nonneg_int:
  assumes "\<not> sint (c :: c_int) < 0"
  shows "unat c = nat (sint c)"
proof -
  have r: "sint c < 2 ^ 31"
    using sint_lt [of c] by simp
  have "uint (word_of_int (sint c) :: c_int) = sint c mod 2 ^ LENGTH(32)"
    by (rule uint_word_of_int)
  then have "uint c = sint c mod 2 ^ 32"
    by simp
  also have "\<dots> = sint c"
    using assms r by (intro mod_pos_pos_trivial) simp_all
  finally show ?thesis
    by (simp add: unat_eq_nat_uint)
qed

text \<open>The translator in terms of the signed value of its argument.\<close>

lemma sed_error_text_sint:
  "sed_error_text c =
     (if c = 0x3F then Some ''Failed\<newline>''
      else if sint c < 0 \<or> 19 \<le> sint c then None
      else Some (sed_errors ! nat (sint c)))"
  unfolding sed_error_text_def ARRAY_SIZE_def
  by (simp add: size_t_of_int_ge unat_nonneg_int sed_errors_def)

text \<open>
  C6. For every status code in 0..18, \<^verbatim>\<open>sed_error_text\<close> returns exactly the string at
  that index of the status table: 0 Success, 1 Not Authorized, 2 Unknown Error, 3 SP Busy,
  4 SP Failed, 5 SP Disabled, 6 SP Frozen, 7 No Sessions Available, 8 Uniqueness Conflict,
  9 Insufficient Space, 10 Insufficient Rows, 11 Invalid Function, 12 Invalid Parameter,
  13 Invalid Reference, 14 Unknown Error, 15 TPER Malfunction, 16 Transaction Failure,
  17 Response Overflow, 18 Authority Locked Out.
\<close>

theorem sed_error_text_table:
  "sed_error_text 0 = Some ''Success'' \<and>
   sed_error_text 1 = Some ''Not Authorized'' \<and>
   sed_error_text 2 = Some ''Unknown Error'' \<and>
   sed_error_text 3 = Some ''SP Busy'' \<and>
   sed_error_text 4 = Some ''SP Failed'' \<and>
   sed_error_text 5 = Some ''SP Disabled'' \<and>
   sed_error_text 6 = Some ''SP Frozen'' \<and>
   sed_error_text 7 = Some ''No Sessions Available'' \<and>
   sed_error_text 8 = Some ''Uniqueness Conflict'' \<and>
   sed_error_text 9 = Some ''Insufficient Space'' \<and>
   sed_error_text 10 = Some ''Insufficient Rows'' \<and>
   sed_error_text 11 = Some ''Invalid Function'' \<and>
   sed_error_text 12 = Some ''Invalid Parameter'' \<and>
   sed_error_text 13 = Some ''Invalid Reference'' \<and>
   sed_error_text 14 = Some ''Unknown Error'' \<and>
   sed_error_text 15 = Some ''TPER Malfunction'' \<and>
   sed_error_text 16 = Some ''Transaction Failure'' \<and>
   sed_error_text 17 = Some ''Response Overflow'' \<and>
   sed_error_text 18 = Some ''Authority Locked Out''"
  by (simp add: sed_error_text_sint sed_errors_def)

text \<open>
  C7. The stated result of \<^verbatim>\<open>sed_error_text\<close> at the generic failure sentinel 0x3F is
  exactly the string Failed. The code returns the literal \<^verbatim>\<open>"Failed\n"\<close>: the six letters
  of Failed and a line feed, seven characters in all, so the returned string is not the
  six-character string Failed. None of the nineteen strings of \<^verbatim>\<open>sed_errors[]\<close>, which the
  same function returns, ends in a line feed.
\<close>

theorem sed_error_text_sentinel:
  "sed_error_text 0x3F = Some ''Failed\<newline>'' \<and>
   sed_error_text 0x3F = Some (''Failed'' @ [CHR 0x0A]) \<and>
   map_option length (sed_error_text 0x3F) = Some 7 \<and>
   sed_error_text 0x3F \<noteq> Some ''Failed'' \<and>
   list_all (\<lambda>t. last t \<noteq> CHR 0x0A) sed_errors"
  by (simp add: sed_error_text_def sed_errors_def)

text \<open>
  C8. For every status code that is negative, or greater than 18 and different from
  0x3F, \<^verbatim>\<open>sed_error_text\<close> returns the null pointer: no text, and in particular not the
  text of success.
\<close>

theorem sed_error_text_unknown:
  "(sint c < 0 \<or> 18 < sint c) \<and> c \<noteq> 0x3F \<Longrightarrow>
     sed_error_text c = None \<and> sed_error_text c \<noteq> sed_error_text 0"
  by (auto simp add: sed_error_text_sint)

theorem sed_error_text_unknown_witness:
  "sed_error_text (- 1) = None \<and> sed_error_text 19 = None \<and>
   sed_error_text (- 1) \<noteq> sed_error_text 0 \<and> sed_error_text 19 \<noteq> sed_error_text 0"
  using sed_error_text_unknown [of "- 1"] sed_error_text_unknown [of 19]
  by (simp add: sed_error_text_sint)

subsection \<open>Key container\<close>

lemma dest_len_unat:
  assumes "1 \<le> cap" "cap \<le> 256"
  shows "unat (word_of_int (cap - 1) :: u8) = nat (cap - 1)"
proof -
  have "uint (word_of_int (cap - 1) :: u8) = (cap - 1) mod 2 ^ LENGTH(8)"
    by (rule uint_word_of_int)
  also have "\<dots> = cap - 1"
    using assms by (intro mod_pos_pos_trivial) simp_all
  finally show ?thesis
    by (simp add: unat_eq_nat_uint)
qed

lemma key_len_le_255: "unat (key_len :: u8) \<le> 255"
  using unsigned_less [of key_len, where 'a = nat] by simp

lemma sed_key_init_zero:
  "sed_key_init cap auth_key src 0 w = Inr (- EINVAL, auth_key, w)"
  by (simp add: sed_key_init_def)

lemma sed_key_init_too_long:
  assumes "1 \<le> cap" "cap - 1 < int (unat key_len)"
  shows "sed_key_init cap auth_key src key_len w = Inr (- ERANGE, auth_key, w)"
proof -
  have "cap \<le> 256"
    using assms(2) key_len_le_255 [of key_len] by linarith
  then have d: "unat (word_of_int (cap - 1) :: u8) = nat (cap - 1)"
    using assms(1) by (rule dest_len_unat [rotated])
  have "unat key_len \<noteq> 0"
    using assms by linarith
  then have nz: "key_len \<noteq> 0"
    by auto
  have "nat (cap - 1) < unat key_len"
    using assms by linarith
  then have "word_of_int (cap - 1) < key_len"
    using d by (simp add: word_less_nat_alt)
  then show ?thesis
    using nz by (simp add: sed_key_init_def)
qed

lemma sed_key_init_accepts:
  assumes "cap \<le> 256" "int (length (key_C auth_key)) = cap"
    and "1 \<le> unat key_len" "int (unat key_len) \<le> cap - 1" "unat key_len \<le> length src"
  shows "sed_key_init cap auth_key src key_len w =
           Inr (0, auth_key\<lparr>key_C := take (unat key_len) src @ drop (unat key_len) (key_C auth_key),
                             len_C := key_len\<rparr>, w)"
proof -
  have c1: "1 \<le> cap"
    using assms(3,4) by linarith
  have d: "unat (word_of_int (cap - 1) :: u8) = nat (cap - 1)"
    using c1 assms(1) by (rule dest_len_unat)
  have nz: "key_len \<noteq> 0"
    using assms(3) by auto
  have "\<not> nat (cap - 1) < unat key_len"
    using assms(4) by linarith
  then have "\<not> word_of_int (cap - 1) < key_len"
    using d by (simp add: word_less_nat_alt)
  moreover have "unat key_len \<le> length (key_C auth_key)"
    using assms(2,4) by linarith
  ultimately show ?thesis
    using nz assms(5) by (simp add: sed_key_init_def c_memcpy_def)
qed

text \<open>
  C4. For every source array and every length with 1 \<le> length \<le> \<^verbatim>\<open>SED_MAX_KEY_LEN\<close> - 1,
  \<^verbatim>\<open>sed_key_init\<close> returns 0, the stored length is the input length and the stored bytes
  are the first \<open>length\<close> bytes of the source; the bytes of the container after them are
  the ones it held before (no padding), and the array keeps its size. The constant
  \<^verbatim>\<open>SED_MAX_KEY_LEN\<close> is the parameter \<open>cap\<close>, at most 256 so that \<^verbatim>\<open>SED_MAX_KEY_LEN - 1\<close>
  fits the \<^verbatim>\<open>uint8_t dest_len\<close>; the container is an array of \<open>cap\<close> bytes and the source
  holds at least \<open>length\<close> bytes.
\<close>

theorem sed_key_init_success:
  assumes "cap \<le> 256" "int (length (key_C auth_key)) = cap"
    and "1 \<le> unat key_len" "int (unat key_len) \<le> cap - 1" "unat key_len \<le> length src"
  shows "\<exists>k'. sed_key_init cap auth_key src key_len w = Inr (0, k', w) \<and>
           len_C k' = key_len \<and>
           take (unat key_len) (key_C k') = take (unat key_len) src \<and>
           drop (unat key_len) (key_C k') = drop (unat key_len) (key_C auth_key) \<and>
           length (key_C k') = length (key_C auth_key)"
proof -
  have "unat key_len \<le> length (key_C auth_key)"
    using assms(2,4) by linarith
  then show ?thesis
    using assms(5) by (simp add: sed_key_init_accepts [OF assms] min_def)
qed

theorem sed_key_init_success_witness:
  "\<exists>k'. sed_key_init 32 key0 password1 9 world0 = Inr (0, k', world0) \<and>
     len_C k' = 9 \<and> take 9 (key_C k') = password1 \<and>
     drop 9 (key_C k') = replicate 23 0x5A \<and> length (key_C k') = 32"
  using sed_key_init_success [of 32 key0 9 password1 world0]
  by (simp add: key0_def password1_def)

text \<open>
  C5. For every source array, \<^verbatim>\<open>sed_key_init\<close> with length 0 returns \<^verbatim>\<open>-EINVAL\<close>, and with a
  length greater than \<^verbatim>\<open>SED_MAX_KEY_LEN\<close> - 1 it returns \<^verbatim>\<open>-ERANGE\<close> (for a capacity of at
  least 1). Both codes are negative and have no entry in the status translator, and the
  world is returned as it was: no backend entry is called.
\<close>

theorem sed_key_init_rejects:
  "sed_key_init cap auth_key src 0 w = Inr (- EINVAL, auth_key, w) \<and>
   (1 \<le> cap \<and> cap - 1 < int (unat key_len) \<longrightarrow>
      sed_key_init cap auth_key src key_len w = Inr (- ERANGE, auth_key, w)) \<and>
   sint (- EINVAL) < 0 \<and> sint (- ERANGE) < 0 \<and>
   sed_error_text (- EINVAL) = None \<and> sed_error_text (- ERANGE) = None"
  by (simp add: sed_key_init_zero sed_key_init_too_long sed_error_text_sint EINVAL_def ERANGE_def)

theorem sed_key_init_rejects_witness:
  "sed_key_init 32 key0 password1 0 world0 = Inr (- 22, key0, world0) \<and>
   sed_key_init 32 key0 password1 32 world0 = Inr (- 34, key0, world0) \<and>
   sed_key_init 32 key0 password1 255 world0 = Inr (- 34, key0, world0)"
  using sed_key_init_rejects [of 32 key0 password1 world0 32]
    sed_key_init_rejects [of 32 key0 password1 world0 255]
  by (simp add: EINVAL_def ERANGE_def)

text \<open>
  C10. When \<^verbatim>\<open>sed_key_init\<close> fails (length 0, or length greater than
  \<^verbatim>\<open>SED_MAX_KEY_LEN\<close> - 1), the key container is returned as it was: neither its bytes nor
  its length are written. More generally, whenever the function returns a status other
  than 0, the container and the world are unchanged.
\<close>

theorem sed_key_init_failure_keeps_container:
  "(key_len = 0 \<or> 1 \<le> cap \<and> cap - 1 < int (unat key_len) \<longrightarrow>
      (\<exists>r. r \<noteq> 0 \<and> sed_key_init cap auth_key src key_len w = Inr (r, auth_key, w))) \<and>
   (sed_key_init cap auth_key src key_len w = Inr (r, k', w') \<and> r \<noteq> 0 \<longrightarrow>
      k' = auth_key \<and> key_C k' = key_C auth_key \<and> len_C k' = len_C auth_key \<and> w' = w)"
proof (intro conjI impI)
  assume "key_len = 0 \<or> 1 \<le> cap \<and> cap - 1 < int (unat key_len)"
  then show "\<exists>r. r \<noteq> 0 \<and> sed_key_init cap auth_key src key_len w = Inr (r, auth_key, w)"
  proof
    assume "key_len = 0"
    then show ?thesis
      by (simp add: sed_key_init_zero EINVAL_def)
  next
    assume "1 \<le> cap \<and> cap - 1 < int (unat key_len)"
    then show ?thesis
      by (simp add: sed_key_init_too_long ERANGE_def)
  qed
next
  assume a: "sed_key_init cap auth_key src key_len w = Inr (r, k', w') \<and> r \<noteq> 0"
  then have "k' = auth_key \<and> w' = w"
    by (auto simp add: sed_key_init_def Let_def split: if_splits sum.splits)
  then show "k' = auth_key" "key_C k' = key_C auth_key" "len_C k' = len_C auth_key" "w' = w"
    by simp_all
qed

theorem sed_key_init_failure_keeps_container_witness:
  "(\<exists>r. r \<noteq> 0 \<and> sed_key_init 32 key0 password1 0 world0 = Inr (r, key0, world0)) \<and>
   (\<exists>r. r \<noteq> 0 \<and> sed_key_init 32 key0 password1 255 world0 = Inr (r, key0, world0)) \<and>
   sed_key_init 32 key0 password1 0 world0 = Inr (- EINVAL, key0, world0) \<and>
   - EINVAL \<noteq> (0 :: c_int)"
  using sed_key_init_failure_keeps_container [where cap = 32 and auth_key = key0
      and src = password1 and key_len = 0 and w = world0 and r = "- EINVAL" and k' = key0
      and w' = world0]
    sed_key_init_failure_keeps_container [where cap = 32 and auth_key = key0
      and src = password1 and key_len = 255 and w = world0]
  by (simp add: sed_key_init_zero EINVAL_def)

subsection \<open>Command operations\<close>

lemma sed_takeownership_present:
  "ownership_fn curr_if = Some f \<Longrightarrow>
     sed_takeownership curr_if dev key w = Inr (run_backend OWNERSHIP_FN (f dev key) w)"
  by (simp add: sed_takeownership_def call_def)

lemma sed_setup_global_range_present:
  "setup_global_range_fn curr_if = Some f \<Longrightarrow>
     sed_setup_global_range curr_if dev key w = Inr (run_backend SETUP_GLOBAL_RANGE_FN (f dev key) w)"
  by (simp add: sed_setup_global_range_def call_def)

lemma sed_reverttper_present:
  "revert_fn curr_if = Some f \<Longrightarrow>
     sed_reverttper curr_if dev key psid w = Inr (run_backend REVERT_FN (f dev key psid) w)"
  by (simp add: sed_reverttper_def call_def)

lemma sed_activatelsp_present:
  "activatelsp_fn curr_if = Some f \<Longrightarrow>
     sed_activatelsp curr_if dev key w = Inr (run_backend ACTIVATELSP_FN (f dev key NULL False) w)"
  by (simp add: sed_activatelsp_def call_def)

lemma sed_lock_unlock_present:
  "lock_unlock_fn curr_if = Some f \<Longrightarrow>
     sed_lock_unlock curr_if dev key lock_type w = Inr (run_backend LOCK_UNLOCK_FN (f dev key lock_type) w)"
  by (simp add: sed_lock_unlock_def call_def)

lemma sed_addusertolr_present:
  "addusr_to_lr_fn curr_if = Some f \<Longrightarrow>
     sed_addusertolr curr_if dev pass key_len user lock_type lr w = Inr (run_backend ADDUSR_TO_LR_FN (f dev pass key_len user lock_type lr) w)"
  by (simp add: sed_addusertolr_def call_def)

lemma sed_enableuser_present:
  "activate_usr_fn curr_if = Some f \<Longrightarrow>
     sed_enableuser curr_if dev pass key_len user w = Inr (run_backend ACTIVATE_USR_FN (f dev pass key_len user) w)"
  by (simp add: sed_enableuser_def call_def)

lemma sed_setuplr_present:
  "setuplr_fn curr_if = Some f \<Longrightarrow>
     sed_setuplr curr_if dev pass key_len user lr range_start range_length sum_f RLE WLE w = Inr (run_backend SETUPLR_FN (f dev pass key_len user lr range_start range_length sum_f RLE WLE) w)"
  by (simp add: sed_setuplr_def call_def)

lemma sed_setpw_present:
  "set_pwd_fn curr_if = Some f \<Longrightarrow>
     sed_setpw curr_if dev old_key new_key w = Inr (run_backend SET_PWD_FN (f dev old_key new_key) w)"
  by (simp add: sed_setpw_def call_def)

lemma sed_shadowmbr_present:
  "shadow_mbr_fn curr_if = Some f \<Longrightarrow>
     sed_shadowmbr curr_if dev pass key_len mbr w = Inr (run_backend SHADOW_MBR_FN (f dev pass key_len mbr) w)"
  by (simp add: sed_shadowmbr_def call_def)

lemma sed_eraselr_present:
  "eraselr_fn curr_if = Some f \<Longrightarrow>
     sed_eraselr curr_if dev password key_len user lr sum_f w = Inr (run_backend ERASELR_FN (f dev password key_len user lr sum_f) w)"
  by (simp add: sed_eraselr_def call_def)

lemma sed_ds_admin_write_present:
  "ds_admin_write_fn curr_if = Some f \<Longrightarrow>
     sed_ds_admin_write curr_if dev key key_len from_p size_n offset w = Inr (run_backend DS_ADMIN_WRITE_FN (f dev key key_len from_p size_n offset) w)"
  by (simp add: sed_ds_admin_write_def call_def)


lemma sed_ds_admin_read_present:
  "ds_admin_read_fn curr_if = Some f \<Longrightarrow>
     sed_ds_admin_read curr_if dev key key_len to_p size_n offset w = Inr (run_backend DS_ADMIN_READ_FN (f dev key key_len to_p size_n offset) w)"
  by (simp add: sed_ds_admin_read_def call_def)


lemma sed_ds_anybody_read_present:
  "ds_anybody_read_fn curr_if = Some f \<Longrightarrow>
     sed_ds_anybody_read curr_if dev to_p size_n offset w = Inr (run_backend DS_ANYBODY_READ_FN (f dev to_p size_n offset) w)"
  by (simp add: sed_ds_anybody_read_def call_def)


lemma sed_ds_anybody_write_present:
  "ds_anybody_write_fn curr_if = Some f \<Longrightarrow>
     sed_ds_anybody_write curr_if dev from_p size_n offset w = Inr (run_backend DS_ANYBODY_WRITE_FN (f dev from_p size_n offset) w)"
  by (simp add: sed_ds_anybody_write_def call_def)


lemma sed_ds_add_anybody_get_present:
  "ds_add_anybody_get_fn curr_if = Some f \<Longrightarrow>
     sed_ds_add_anybody_get curr_if dev key key_len w = Inr (run_backend DS_ADD_ANYBODY_GET_FN (f dev key key_len) w)"
  by (simp add: sed_ds_add_anybody_get_def call_def)


lemma sed_list_lr_present:
  "list_lr_fn curr_if = Some f \<Longrightarrow>
     sed_list_lr curr_if dev key key_len w = Inr (run_backend LIST_LR_FN (f dev key key_len) w)"
  by (simp add: sed_list_lr_def call_def)


lemma run_backend_result:
  "h (mem w, backend w) = (r, m', b') \<Longrightarrow>
     run_backend e h w = (r, w\<lparr>mem := m', backend := b', trace := trace w @ [EvCall e]\<rparr>)"
  by (simp add: run_backend_def)

text \<open>
  C9. For each of the seventeen command operations, when its entry of the table is
  present (\<open>Some f\<close>), the operation is one run of \<open>f\<close> on the arguments of the call
  (\<^verbatim>\<open>sed_activatelsp\<close> adds the fixed arguments \<^verbatim>\<open>NULL\<close> and \<^verbatim>\<open>false\<close>): the last conjunct
  says what one run is. The status \<open>r\<close> that \<open>f\<close> returns is the result, zero or not;
  memory and backend state are those \<open>f\<close> leaves; exactly one call, of that entry, is
  added to the trace.
\<close>

theorem facade_forwards:
  "(\<forall>f. ownership_fn curr_if = Some f \<longrightarrow>
      sed_takeownership curr_if dev key w =
        Inr (run_backend OWNERSHIP_FN (f dev key) w)) \<and>
   (\<forall>f. setup_global_range_fn curr_if = Some f \<longrightarrow>
      sed_setup_global_range curr_if dev key w =
        Inr (run_backend SETUP_GLOBAL_RANGE_FN (f dev key) w)) \<and>
   (\<forall>f. revert_fn curr_if = Some f \<longrightarrow>
      sed_reverttper curr_if dev key psid w =
        Inr (run_backend REVERT_FN (f dev key psid) w)) \<and>
   (\<forall>f. activatelsp_fn curr_if = Some f \<longrightarrow>
      sed_activatelsp curr_if dev key w =
        Inr (run_backend ACTIVATELSP_FN (f dev key NULL False) w)) \<and>
   (\<forall>f. lock_unlock_fn curr_if = Some f \<longrightarrow>
      sed_lock_unlock curr_if dev key lock_type w =
        Inr (run_backend LOCK_UNLOCK_FN (f dev key lock_type) w)) \<and>
   (\<forall>f. addusr_to_lr_fn curr_if = Some f \<longrightarrow>
      sed_addusertolr curr_if dev pass key_len user lock_type lr w =
        Inr (run_backend ADDUSR_TO_LR_FN (f dev pass key_len user lock_type lr) w)) \<and>
   (\<forall>f. activate_usr_fn curr_if = Some f \<longrightarrow>
      sed_enableuser curr_if dev pass key_len user w =
        Inr (run_backend ACTIVATE_USR_FN (f dev pass key_len user) w)) \<and>
   (\<forall>f. setuplr_fn curr_if = Some f \<longrightarrow>
      sed_setuplr curr_if dev pass key_len user lr range_start range_length sum_f RLE WLE w =
        Inr (run_backend SETUPLR_FN
               (f dev pass key_len user lr range_start range_length sum_f RLE WLE) w)) \<and>
   (\<forall>f. set_pwd_fn curr_if = Some f \<longrightarrow>
      sed_setpw curr_if dev old_key new_key w =
        Inr (run_backend SET_PWD_FN (f dev old_key new_key) w)) \<and>
   (\<forall>f. shadow_mbr_fn curr_if = Some f \<longrightarrow>
      sed_shadowmbr curr_if dev pass key_len mbr w =
        Inr (run_backend SHADOW_MBR_FN (f dev pass key_len mbr) w)) \<and>
   (\<forall>f. eraselr_fn curr_if = Some f \<longrightarrow>
      sed_eraselr curr_if dev password key_len user lr sum_f w =
        Inr (run_backend ERASELR_FN (f dev password key_len user lr sum_f) w)) \<and>
   (\<forall>f. ds_admin_write_fn curr_if = Some f \<longrightarrow>
      sed_ds_admin_write curr_if dev key key_len from_p size_n offset w =
        Inr (run_backend DS_ADMIN_WRITE_FN (f dev key key_len from_p size_n offset) w)) \<and>
   (\<forall>f. ds_admin_read_fn curr_if = Some f \<longrightarrow>
      sed_ds_admin_read curr_if dev key key_len to_p size_n offset w =
        Inr (run_backend DS_ADMIN_READ_FN (f dev key key_len to_p size_n offset) w)) \<and>
   (\<forall>f. ds_anybody_read_fn curr_if = Some f \<longrightarrow>
      sed_ds_anybody_read curr_if dev to_p size_n offset w =
        Inr (run_backend DS_ANYBODY_READ_FN (f dev to_p size_n offset) w)) \<and>
   (\<forall>f. ds_anybody_write_fn curr_if = Some f \<longrightarrow>
      sed_ds_anybody_write curr_if dev from_p size_n offset w =
        Inr (run_backend DS_ANYBODY_WRITE_FN (f dev from_p size_n offset) w)) \<and>
   (\<forall>f. ds_add_anybody_get_fn curr_if = Some f \<longrightarrow>
      sed_ds_add_anybody_get curr_if dev key key_len w =
        Inr (run_backend DS_ADD_ANYBODY_GET_FN (f dev key key_len) w)) \<and>
   (\<forall>f. list_lr_fn curr_if = Some f \<longrightarrow>
      sed_list_lr curr_if dev key key_len w =
        Inr (run_backend LIST_LR_FN (f dev key key_len) w)) \<and>
   (\<forall>r m' b'. h (mem w, backend w) = (r, m', b') \<longrightarrow>
      run_backend e h w =
        (r, w\<lparr>mem := m', backend := b', trace := trace w @ [EvCall e]\<rparr>))"
  by (simp add: sed_takeownership_present sed_setup_global_range_present sed_reverttper_present
      sed_activatelsp_present sed_lock_unlock_present sed_addusertolr_present
      sed_enableuser_present sed_setuplr_present sed_setpw_present sed_shadowmbr_present
      sed_eraselr_present sed_ds_admin_write_present sed_ds_admin_read_present
      sed_ds_anybody_read_present sed_ds_anybody_write_present sed_ds_add_anybody_get_present
      sed_list_lr_present run_backend_result)

theorem facade_forwards_witness:
  "sed_takeownership (passthrough_table 7) 16 32 world0 =
     Inr (7, world0\<lparr>backend := 1, trace := [EvCall OWNERSHIP_FN]\<rparr>) \<and>
   sed_setup_global_range (passthrough_table 7) 16 32 world0 =
     Inr (7, world0\<lparr>backend := 1, trace := [EvCall SETUP_GLOBAL_RANGE_FN]\<rparr>) \<and>
   sed_reverttper (passthrough_table 7) 16 32 True world0 =
     Inr (7, world0\<lparr>backend := 1, trace := [EvCall REVERT_FN]\<rparr>) \<and>
   sed_activatelsp (passthrough_table 7) 16 32 world0 =
     Inr (7, world0\<lparr>backend := 1, trace := [EvCall ACTIVATELSP_FN]\<rparr>) \<and>
   sed_lock_unlock (passthrough_table 7) 16 32 2 world0 =
     Inr (7, world0\<lparr>backend := 1, trace := [EvCall LOCK_UNLOCK_FN]\<rparr>) \<and>
   sed_addusertolr (passthrough_table 7) 16 40 9 48 2 1 world0 =
     Inr (7, world0\<lparr>backend := 1, trace := [EvCall ADDUSR_TO_LR_FN]\<rparr>) \<and>
   sed_enableuser (passthrough_table 7) 16 40 9 48 world0 =
     Inr (7, world0\<lparr>backend := 1, trace := [EvCall ACTIVATE_USR_FN]\<rparr>) \<and>
   sed_setuplr (passthrough_table 7) 16 40 9 48 1 0 4096 False True True world0 =
     Inr (7, world0\<lparr>backend := 1, trace := [EvCall SETUPLR_FN]\<rparr>) \<and>
   sed_setpw (passthrough_table 7) 16 32 64 world0 =
     Inr (7, world0\<lparr>backend := 1, trace := [EvCall SET_PWD_FN]\<rparr>) \<and>
   sed_shadowmbr (passthrough_table 7) 16 40 9 True world0 =
     Inr (7, world0\<lparr>backend := 1, trace := [EvCall SHADOW_MBR_FN]\<rparr>) \<and>
   sed_eraselr (passthrough_table 7) 16 40 9 48 1 False world0 =
     Inr (7, world0\<lparr>backend := 1, trace := [EvCall ERASELR_FN]\<rparr>) \<and>
   sed_ds_admin_write (passthrough_table 7) 16 32 9 72 512 0 world0 =
     Inr (7, world0\<lparr>backend := 1, trace := [EvCall DS_ADMIN_WRITE_FN]\<rparr>) \<and>
   sed_ds_admin_read (passthrough_table 7) 16 32 9 80 512 0 world0 =
     Inr (7, world0\<lparr>backend := 1, trace := [EvCall DS_ADMIN_READ_FN]\<rparr>) \<and>
   sed_ds_anybody_read (passthrough_table 7) 16 80 512 0 world0 =
     Inr (7, world0\<lparr>backend := 1, trace := [EvCall DS_ANYBODY_READ_FN]\<rparr>) \<and>
   sed_ds_anybody_write (passthrough_table 7) 16 72 512 0 world0 =
     Inr (7, world0\<lparr>backend := 1, trace := [EvCall DS_ANYBODY_WRITE_FN]\<rparr>) \<and>
   sed_ds_add_anybody_get (passthrough_table 7) 16 32 9 world0 =
     Inr (7, world0\<lparr>backend := 1, trace := [EvCall DS_ADD_ANYBODY_GET_FN]\<rparr>) \<and>
   sed_list_lr (passthrough_table 7) 16 32 9 world0 =
     Inr (7, world0\<lparr>backend := 1, trace := [EvCall LIST_LR_FN]\<rparr>)"
  using facade_forwards [where curr_if = "passthrough_table 7" and w = world0 and h = "stub 7"
      and RLE = True and WLE = True and dev = 16 and from_p = 72 and key = 32
      and key_len = 9 and lock_type = 2 and lr = 1 and mbr = True and new_key = 64
      and offset = 0 and old_key = 32 and pass = 40 and password = 40 and psid = True
      and range_length = 4096 and range_start = 0 and size_n = 512 and sum_f = False
      and to_p = 80 and user = 48]
  by (simp add: passthrough_table_def stub_def world0_def)




subsection \<open>Device handle life cycle\<close>

lemma sed_deinit_null:
  "sed_deinit curr_if sizeof_dev NULL w = Inr w"
  by (simp add: sed_deinit_def)

lemma sed_deinit_live:
  assumes "dev \<noteq> NULL" "deinit_fn curr_if = Some g" "g dev (mem w, backend w) = (m1, b1)"
    and "live w dev = Some n" "sizeof_dev \<le> n"
  shows "sed_deinit curr_if sizeof_dev dev w =
           Inr (w\<lparr>mem := (\<lambda>x. if dev \<le> x \<and> x < dev + sizeof_dev then 0 else m1 x),
                    live := (live w)(dev := None),
                    backend := b1,
                    trace := trace w @ [EvCall DEINIT_FN, EvMemset dev 0 sizeof_dev, EvFree dev]\<rparr>)"
  using assms
  by (simp add: sed_deinit_def call_void_def run_backend_void_def c_memset_def c_free_def
      cong del: if_weak_cong)

text \<open>
  C3. \<^verbatim>\<open>sed_deinit\<close> of the null pointer returns the world as it was, whatever the table
  holds: no call, no change. For a handle that is a live block of at least
  \<^verbatim>\<open>sizeof(struct sed_device)\<close> bytes, and a table with a deinit entry \<open>g\<close>, it runs \<open>g\<close>
  on the handle, then sets all \<^verbatim>\<open>sizeof(struct sed_device)\<close> bytes of the block to zero
  (over what \<open>g\<close> left there), then frees the block: the trace grows by these three
  events in this order.
\<close>

theorem sed_deinit_order:
  "sed_deinit curr_if sizeof_dev NULL w = Inr w \<and>
   (dev \<noteq> NULL \<and> deinit_fn curr_if = Some g \<and> g dev (mem w, backend w) = (m1, b1) \<and>
    live w dev = Some n \<and> sizeof_dev \<le> n \<longrightarrow>
      sed_deinit curr_if sizeof_dev dev w =
        Inr (w\<lparr>mem := (\<lambda>x. if dev \<le> x \<and> x < dev + sizeof_dev then 0 else m1 x),
                 live := (live w)(dev := None),
                 backend := b1,
                 trace := trace w @ [EvCall DEINIT_FN, EvMemset dev 0 sizeof_dev, EvFree dev]\<rparr>))"
  by (simp add: sed_deinit_null sed_deinit_live)

theorem sed_deinit_order_witness:
  "sed_deinit (passthrough_table 0) 8 NULL world1 = Inr world1 \<and>
   sed_deinit (passthrough_table 0) 8 16 world1 =
     Inr \<lparr>mem = (\<lambda>x. if 16 \<le> x \<and> x < 24 then 0 else 0xAA), live = Map.empty, heap_next = [],
          backend = 2,
          trace = [EvMalloc 8 16, EvCall INIT_FN, EvCall DEINIT_FN, EvMemset 16 0 8, EvFree 16]\<rparr>"
  using sed_deinit_order [where curr_if = "passthrough_table 0" and sizeof_dev = 8 and w = world1
      and dev = 16 and g = stub_deinit and ?m1.0 = "(\<lambda>x. 0xAA)(16 := 0xFF)"
      and ?b1.0 = 2 and n = 8]
  by (auto simp add: passthrough_table_def stub_deinit_def world1_def fun_eq_iff)

lemma sed_init_nomem:
  assumes "fst (c_malloc sizeof_dev w) = NULL"
  shows "sed_init curr_if sizeof_dev dev dev_path w = Inr (- ENOMEM, dev, snd (c_malloc sizeof_dev w))"
    and "trace (snd (c_malloc sizeof_dev w)) = trace w"
    and "mem (snd (c_malloc sizeof_dev w)) = mem w"
    and "backend (snd (c_malloc sizeof_dev w)) = backend w"
    and "live (snd (c_malloc sizeof_dev w)) = live w"
  using assms
  by (auto simp add: sed_init_def c_malloc_def split: prod.splits list.splits if_splits)

lemma sed_init_backend_failure:
  assumes "c_malloc sizeof_dev w = (ret, w1)" "ret \<noteq> NULL"
    and "init_fn curr_if = Some f" "f ret dev_path (mem w1, backend w1) = (status, m2, b2)"
    and "status \<noteq> 0"
  shows "sed_init curr_if sizeof_dev dev dev_path w =
           (case sed_deinit curr_if sizeof_dev ret
                   (w1\<lparr>mem := m2, backend := b2, trace := trace w1 @ [EvCall INIT_FN]\<rparr>) of
              Inl e \<Rightarrow> Inl e
            | Inr w3 \<Rightarrow> Inr (status, dev, w3))"
  using assms by (simp add: sed_init_def call_def run_backend_def)

lemma c_malloc_live:
  assumes "c_malloc sizeof_dev w = (ret, w1)" "ret \<noteq> NULL"
  shows "live w1 ret = Some sizeof_dev" "live w1 = (live w)(ret \<mapsto> sizeof_dev)"
    "trace w1 = trace w @ [EvMalloc sizeof_dev ret]"
  using assms by (auto simp add: c_malloc_def split: list.splits if_splits)

text \<open>
  C2. For every device path: if \<^verbatim>\<open>malloc\<close> returns the null pointer, \<^verbatim>\<open>sed_init\<close> returns
  \<^verbatim>\<open>-ENOMEM\<close>, the caller's \<^verbatim>\<open>*dev\<close> keeps its value, and trace, memory, backend state
  and live blocks are unchanged (the init entry is not called). If \<^verbatim>\<open>malloc\<close> returns
  a block \<open>ret\<close> and the init entry \<open>f\<close> returns a status other than 0, then
  \<^verbatim>\<open>sed_deinit\<close> runs on \<open>ret\<close> in the world \<open>f\<close> left (deinit entry, zeroing, free),
  \<^verbatim>\<open>sed_init\<close> returns that status with the world \<^verbatim>\<open>sed_deinit\<close> left, in which \<open>ret\<close> is
  no longer live, and the caller's \<^verbatim>\<open>*dev\<close> keeps its value.
\<close>

theorem sed_init_failure:
  "(fst (c_malloc sizeof_dev w) = NULL \<longrightarrow>
      sed_init curr_if sizeof_dev dev dev_path w =
        Inr (- ENOMEM, dev, snd (c_malloc sizeof_dev w)) \<and>
      trace (snd (c_malloc sizeof_dev w)) = trace w \<and>
      mem (snd (c_malloc sizeof_dev w)) = mem w \<and>
      backend (snd (c_malloc sizeof_dev w)) = backend w \<and>
      live (snd (c_malloc sizeof_dev w)) = live w) \<and>
   (c_malloc sizeof_dev w = (ret, w1) \<and> ret \<noteq> NULL \<and>
    init_fn curr_if = Some f \<and> f ret dev_path (mem w1, backend w1) = (status, m2, b2) \<and>
    status \<noteq> 0 \<and>
    deinit_fn curr_if = Some g \<and> g ret (m2, b2) = (m3, b3) \<longrightarrow>
      sed_deinit curr_if sizeof_dev ret
          (w1\<lparr>mem := m2, backend := b2, trace := trace w1 @ [EvCall INIT_FN]\<rparr>) =
        Inr (w1\<lparr>mem := (\<lambda>x. if ret \<le> x \<and> x < ret + sizeof_dev then 0 else m3 x),
                  live := (live w)(ret := None),
                  backend := b3,
                  trace := trace w @ [EvMalloc sizeof_dev ret, EvCall INIT_FN, EvCall DEINIT_FN,
                                      EvMemset ret 0 sizeof_dev, EvFree ret]\<rparr>) \<and>
      sed_init curr_if sizeof_dev dev dev_path w =
        Inr (status, dev,
             w1\<lparr>mem := (\<lambda>x. if ret \<le> x \<and> x < ret + sizeof_dev then 0 else m3 x),
                 live := (live w)(ret := None),
                 backend := b3,
                 trace := trace w @ [EvMalloc sizeof_dev ret, EvCall INIT_FN, EvCall DEINIT_FN,
                                     EvMemset ret 0 sizeof_dev, EvFree ret]\<rparr>))"
proof (intro conjI impI)
  assume a: "c_malloc sizeof_dev w = (ret, w1) \<and> ret \<noteq> NULL \<and>
    init_fn curr_if = Some f \<and> f ret dev_path (mem w1, backend w1) = (status, m2, b2) \<and>
    status \<noteq> 0 \<and>
    deinit_fn curr_if = Some g \<and> g ret (m2, b2) = (m3, b3)"
  let ?w2 = "w1\<lparr>mem := m2, backend := b2, trace := trace w1 @ [EvCall INIT_FN]\<rparr>"
  from a have a1: "c_malloc sizeof_dev w = (ret, w1)" and a2: "ret \<noteq> NULL"
    by blast+
  have l: "live w1 ret = Some sizeof_dev" "live w1 = (live w)(ret \<mapsto> sizeof_dev)"
    "trace w1 = trace w @ [EvMalloc sizeof_dev ret]"
    by (rule c_malloc_live [OF a1 a2])+
  have d: "sed_deinit curr_if sizeof_dev ret ?w2 =
      Inr (?w2\<lparr>mem := (\<lambda>x. if ret \<le> x \<and> x < ret + sizeof_dev then 0 else m3 x),
                live := (live ?w2)(ret := None),
                backend := b3,
                trace := trace ?w2 @ [EvCall DEINIT_FN, EvMemset ret 0 sizeof_dev, EvFree ret]\<rparr>)"
  proof (rule sed_deinit_live [where g = g and n = sizeof_dev])
    show "ret \<noteq> NULL"
      by (rule a2)
    show "deinit_fn curr_if = Some g"
      using a by blast
    show "g ret (mem ?w2, backend ?w2) = (m3, b3)"
      using a by simp
    show "live ?w2 ret = Some sizeof_dev"
      using l by simp
    show "sizeof_dev \<le> sizeof_dev"
      by simp
  qed
  then show d': "sed_deinit curr_if sizeof_dev ret ?w2 =
        Inr (w1\<lparr>mem := (\<lambda>x. if ret \<le> x \<and> x < ret + sizeof_dev then 0 else m3 x),
                  live := (live w)(ret := None),
                  backend := b3,
                  trace := trace w @ [EvMalloc sizeof_dev ret, EvCall INIT_FN, EvCall DEINIT_FN,
                                      EvMemset ret 0 sizeof_dev, EvFree ret]\<rparr>)"
    using l by simp
  show "sed_init curr_if sizeof_dev dev dev_path w =
        Inr (status, dev,
             w1\<lparr>mem := (\<lambda>x. if ret \<le> x \<and> x < ret + sizeof_dev then 0 else m3 x),
                 live := (live w)(ret := None),
                 backend := b3,
                 trace := trace w @ [EvMalloc sizeof_dev ret, EvCall INIT_FN, EvCall DEINIT_FN,
                                     EvMemset ret 0 sizeof_dev, EvFree ret]\<rparr>)"
    using a by (simp add: sed_init_backend_failure [where f = f and ?m2.0 = m2 and ?b2.0 = b2] d')
qed (simp_all add: sed_init_nomem)

theorem sed_init_failure_witness:
  "sed_init (passthrough_table 1) 8 NULL 100 (world0\<lparr>heap_next := []\<rparr>) =
     Inr (- 12, NULL, world0\<lparr>heap_next := []\<rparr>) \<and>
   sed_init (passthrough_table 1) 8 NULL 100 world0 =
     Inr (1, NULL,
          \<lparr>mem = (\<lambda>x. if 16 \<le> x \<and> x < 24 then 0 else 0xAA), live = Map.empty, heap_next = [],
           backend = 2,
           trace = [EvMalloc 8 16, EvCall INIT_FN, EvCall DEINIT_FN, EvMemset 16 0 8, EvFree 16]\<rparr>)"
  using sed_init_failure [where curr_if = "passthrough_table 1" and sizeof_dev = 8 and dev = NULL
      and dev_path = 100 and w = "world0\<lparr>heap_next := []\<rparr>"]
    sed_init_failure [where curr_if = "passthrough_table 1" and sizeof_dev = 8 and dev = NULL
      and dev_path = 100 and w = world0 and ret = 16

      and ?w1.0 = "world0\<lparr>live := [16 \<mapsto> 8], heap_next := [], trace := [EvMalloc 8 16]\<rparr>"
      and f = "stub_init 1" and status = 1 and ?m2.0 = "(\<lambda>x. 0xAA)(16 := 0xFF)"
      and ?b2.0 = 1
      and g = stub_deinit and ?m3.0 = "(\<lambda>x. 0xAA)(16 := 0xFF)" and ?b3.0 = 2]
  by (auto simp add: passthrough_table_def stub_init_def stub_deinit_def world0_def c_malloc_def
      ENOMEM_def fun_eq_iff)

lemma sed_init_success_example:
  "sed_init (passthrough_table 0) 8 NULL 100 world0 = Inr (0, 16, world1)"
  by (simp add: sed_init_def c_malloc_def call_def run_backend_def passthrough_table_def
      stub_init_def world0_def world1_def)

end
